theory Spec2Isabelle
  imports Complex_Main "HOL-Library.AList"
begin

section \<open>Python values used by the incident workflow\<close>

text \<open>
  Strings are byte strings holding the UTF-8 encoding of the Python text. The workflow only
  tests emptiness, prefixes and substrings, concatenates, and changes the case of letters;
  the first four agree on code points and on their UTF-8 encoding. \<open>lower\<close> and \<open>upper\<close>
  map the ASCII letters only: \<open>upper\<close> is applied to the severities "sev1" to "sev4", and
  \<open>lower\<close> to the title and description for the choice of the runbook, where a letter
  outside ASCII stays as it is.
\<close>

datatype py_error = AttributeError | TypeError | KeyError | IndexError

text \<open>
  The result of \<open>json.loads\<close>. A Python float is kept as the rational number it denotes
  (comparison of a float with an int is exact in Python), with the three special floats
  that \<open>json.loads\<close> accepts as separate constructors.
\<close>

datatype json =
    JNull
  | JBool bool
  | JInt int
  | JFloat rat
  | JInfinity
  | JNegInfinity
  | JNaN
  | JStr string
  | JList "json list"
  | JDict "(string \<times> json) list"

definition startswith :: "string \<Rightarrow> string \<Rightarrow> bool" where
  "startswith s p = (take (length p) s = p)"

text \<open>\<open>contains sub s\<close> is Python's \<open>sub in s\<close> on strings.\<close>

fun contains :: "string \<Rightarrow> string \<Rightarrow> bool" where
  "contains sub [] = (sub = [])"
| "contains sub (c # cs) = (startswith (c # cs) sub \<or> contains sub cs)"

definition lower_char :: "char \<Rightarrow> char" where
  "lower_char c = (let n = (of_char c :: nat) in if 65 \<le> n \<and> n \<le> 90 then char_of (n + 32) else c)"

definition upper_char :: "char \<Rightarrow> char" where
  "upper_char c = (let n = (of_char c :: nat) in if 97 \<le> n \<and> n \<le> 122 then char_of (n - 32) else c)"

definition lower :: "string \<Rightarrow> string" where
  "lower s = map lower_char s"

definition upper :: "string \<Rightarrow> string" where
  "upper s = map upper_char s"

definition is_space :: "char \<Rightarrow> bool" where
  "is_space c = (let n = (of_char c :: nat) in (9 \<le> n \<and> n \<le> 13) \<or> (28 \<le> n \<and> n \<le> 32))"

text \<open>\<open>split_ws s []\<close> is \<open>s.split()\<close>: the maximal runs of non-whitespace characters.\<close>

fun split_ws :: "string \<Rightarrow> string \<Rightarrow> string list" where
  "split_ws [] cur = (if cur = [] then [] else [cur])"
| "split_ws (c # cs) cur =
     (if is_space c then (if cur = [] then split_ws cs [] else cur # split_ws cs [])
      else split_ws cs (cur @ [c]))"

definition split :: "string \<Rightarrow> string list" where
  "split s = split_ws s []"

text \<open>\<open>xs[-1]\<close> raises IndexError on the empty list.\<close>

definition last_item :: "'a list \<Rightarrow> py_error + 'a" where
  "last_item xs = (if xs = [] then Inl IndexError else Inr (last xs))"

text \<open>\<open>d[k]\<close> on a dict literal raises KeyError for a missing key.\<close>

definition subscript :: "(string \<times> 'v) list \<Rightarrow> string \<Rightarrow> py_error + 'v" where
  "subscript d k = (case map_of d k of None \<Rightarrow> Inl KeyError | Some v \<Rightarrow> Inr v)"

text \<open>\<open>d.get(k, default)\<close> on a dict literal.\<close>

definition get_default :: "(string \<times> 'v) list \<Rightarrow> string \<Rightarrow> 'v \<Rightarrow> 'v" where
  "get_default d k dflt = (case map_of d k of None \<Rightarrow> dflt | Some v \<Rightarrow> v)"

fun join :: "string \<Rightarrow> string list \<Rightarrow> string" where
  "join sep [] = []"
| "join sep [x] = x"
| "join sep (x # y # ys) = x @ sep @ join sep (y # ys)"

definition strip :: "string \<Rightarrow> string" where
  "strip s = rev (dropWhile is_space (rev (dropWhile is_space s)))"

definition digit_char :: "nat \<Rightarrow> char" where
  "digit_char d = char_of (48 + d)"

fun str_of_nat :: "nat \<Rightarrow> string" where
  "str_of_nat n = (if n < 10 then [digit_char n] else str_of_nat (n div 10) @ [digit_char (n mod 10)])"

declare str_of_nat.simps [simp del]

text \<open>\<open>str(i)\<close> for a Python int.\<close>

definition str_of_int :: "int \<Rightarrow> string" where
  "str_of_int i = (if i < 0 then CHR ''-'' # str_of_nat (nat (- i)) else str_of_nat (nat i))"

text \<open>
  \<open>metrics.get(key, default)\<close> where \<open>metrics\<close> is whatever \<open>json.loads\<close> returned: only a
  dict has the method.
\<close>

definition metrics_get :: "json \<Rightarrow> string \<Rightarrow> json \<Rightarrow> py_error + json" where
  "metrics_get m k dflt =
     (case m of JDict kvs \<Rightarrow> Inr (get_default kvs k dflt) | _ \<Rightarrow> Inl AttributeError)"

text \<open>\<open>isinstance(v, (int, float))\<close>; a Python bool is an int.\<close>

fun is_number :: "json \<Rightarrow> bool" where
  "is_number (JBool b) = True"
| "is_number (JInt i) = True"
| "is_number (JFloat r) = True"
| "is_number JInfinity = True"
| "is_number JNegInfinity = True"
| "is_number JNaN = True"
| "is_number v = False"

text \<open>\<open>v > n\<close> for an int literal \<open>n\<close>: a TypeError unless \<open>v\<close> is a number.\<close>

fun greater_than :: "json \<Rightarrow> int \<Rightarrow> py_error + bool" where
  "greater_than (JBool b) n = Inr ((if b then 1 else 0) > n)"
| "greater_than (JInt i) n = Inr (i > n)"
| "greater_than (JFloat r) n = Inr (r > of_int n)"
| "greater_than JInfinity n = Inr True"
| "greater_than JNegInfinity n = Inr False"
| "greater_than JNaN n = Inr False"
| "greater_than v n = Inl TypeError"

text \<open>
  An exception raised inside a handler ends the handler: the rest runs only on a value.
\<close>

definition on_value :: "py_error + 'a \<Rightarrow> ('a \<Rightarrow> py_error + 'b) \<Rightarrow> py_error + 'b" where
  "on_value r f = (case r of Inl x \<Rightarrow> Inl x | Inr v \<Rightarrow> f v)"

text \<open>
  What the handlers read from outside the program: the JSON decoder (None when it raises
  JSONDecodeError), Python's string hash, which differs from process to process, and the
  clock reading \<open>datetime.now().isoformat()\<close> at the n-th handler invocation of a run.
\<close>

record env =
  json_loads :: "string \<Rightarrow> json option"
  hash :: "string \<Rightarrow> int"
  now_isoformat :: "nat \<Rightarrow> string"

section \<open>Data models\<close>

text \<open>
  \<open>AlertInput.severity\<close> and \<open>TriageApproval.approved\<close> are \<open>Literal\<close> fields: the model
  classes reject every other string at construction. A handler reads them as strings.
\<close>

datatype severity_literal = critical | high | medium | low

fun severity_str :: "severity_literal \<Rightarrow> string" where
  "severity_str critical = ''critical''"
| "severity_str high = ''high''"
| "severity_str medium = ''medium''"
| "severity_str low = ''low''"

datatype approval_literal = approve | override_to_sev1 | override_to_sev2 | override_to_sev3

fun approval_str :: "approval_literal \<Rightarrow> string" where
  "approval_str approve = ''approve''"
| "approval_str override_to_sev1 = ''override to sev1''"
| "approval_str override_to_sev2 = ''override to sev2''"
| "approval_str override_to_sev3 = ''override to sev3''"

record AlertInput =
  ai_alert_id :: string
  ai_title :: string
  ai_severity :: severity_literal
  ai_description :: string
  ai_source :: string
  ai_resource :: string
  ai_metrics :: string

record ProcessedAlert =
  pa_alert_id :: string
  pa_title :: string
  pa_severity :: string
  pa_description :: string
  pa_source :: string
  pa_resource :: string
  pa_metrics :: json
  received_at :: string
  is_valid :: bool
  validation_errors :: "string list"

record TriageResult =
  alert :: ProcessedAlert
  incident_severity :: string
  incident_title :: string
  summary :: string
  affected_services :: "string list"
  recommended_actions :: "string list"
  assigned_team :: string
  runbook_url :: string
  priority :: string

record TriageApproval =
  approved :: approval_literal
  approval_notes :: string

record GitHubIssue =
  triage :: TriageResult
  issue_number :: int
  issue_url :: string
  labels :: "string list"
  created_at :: string

record TeamsNotification =
  github_issue :: GitHubIssue
  channel :: string
  message_id :: string
  posted_at :: string
  success :: bool

text \<open>The messages that travel along the edges, tagged with their Python class.\<close>

datatype message =
    MAlertInput AlertInput
  | MProcessedAlert ProcessedAlert
  | MTriageResult TriageResult
  | MGitHubIssue GitHubIssue
  | MTeamsNotification TeamsNotification

datatype message_type =
    TAlertInput | TProcessedAlert | TTriageResult | TGitHubIssue | TTeamsNotification

fun type_of :: "message \<Rightarrow> message_type" where
  "type_of (MAlertInput a) = TAlertInput"
| "type_of (MProcessedAlert p) = TProcessedAlert"
| "type_of (MTriageResult t) = TTriageResult"
| "type_of (MGitHubIssue i) = TGitHubIssue"
| "type_of (MTeamsNotification n) = TTeamsNotification"

text \<open>
  A value handed to the engine on resume. The workflow only ever asks for a
  \<open>TriageApproval\<close>; \<open>RText\<close> stands for a response of any other class.
\<close>

datatype response = RTriageApproval TriageApproval | RText string

datatype response_type = TTriageApproval | TText

fun response_type_of :: "response \<Rightarrow> response_type" where
  "response_type_of (RTriageApproval a) = TTriageApproval"
| "response_type_of (RText s) = TText"

text \<open>The calls a handler makes on its \<open>WorkflowContext\<close>, in the order it makes them.\<close>

datatype ctx_call =
    send_message message
  | request_info message response_type
  | yield_output string

type_synonym handler_result = "py_error + ctx_call list"

section \<open>Executors\<close>

subsection \<open>AlertProcessor\<close>

definition process_alert :: "env \<Rightarrow> string \<Rightarrow> AlertInput \<Rightarrow> handler_result" where
  "process_alert e now a =
     (let metrics = (case json_loads e (ai_metrics a) of None \<Rightarrow> JDict [] | Some j \<Rightarrow> j);
          errors = (if ai_alert_id a = [] then [''Missing alert_id''] else [])
                 @ (if ai_title a = [] then [''Missing title''] else [])
                 @ (if severity_str (ai_severity a) \<notin> set [''critical'', ''high'', ''medium'', ''low'']
                    then [''Invalid severity: '' @ severity_str (ai_severity a)] else []);
          processed = \<lparr> pa_alert_id = ai_alert_id a,
                        pa_title = ai_title a,
                        pa_severity = severity_str (ai_severity a),
                        pa_description = ai_description a,
                        pa_source = ai_source a,
                        pa_resource = ai_resource a,
                        pa_metrics = metrics,
                        received_at = now,
                        is_valid = (length errors = 0),
                        validation_errors = errors \<rparr>
      in Inr [send_message (MProcessedAlert processed)])"

subsection \<open>IncidentTriageExecutor\<close>

definition SERVICE_TEAMS :: "(string \<times> string) list" where
  "SERVICE_TEAMS =
     [(''vm-db'', ''platform-sre-team''),
      (''vm-prod'', ''backend-team''),
      (''vm-api'', ''api-team''),
      (''vm-cache'', ''platform-team'')]"

definition RUNBOOKS :: "(string \<times> string) list" where
  "RUNBOOKS =
     [(''cpu'', ''https://wiki.contoso.com/runbooks/high-cpu''),
      (''memory'', ''https://wiki.contoso.com/runbooks/high-memory''),
      (''disk'', ''https://wiki.contoso.com/runbooks/disk-space''),
      (''network'', ''https://wiki.contoso.com/runbooks/network-issues''),
      (''default'', ''https://wiki.contoso.com/runbooks/general-triage'')]"

definition severity_map :: "(string \<times> string) list" where
  "severity_map =
     [(''critical'', ''sev1''), (''high'', ''sev2''), (''medium'', ''sev3''), (''low'', ''sev4'')]"

definition priority_map :: "(string \<times> string) list" where
  "priority_map = [(''sev1'', ''P1''), (''sev2'', ''P2''), (''sev3'', ''P3''), (''sev4'', ''P4'')]"

text \<open>
  The two \<open>for ... in d.items(): if cond: x = value; break\<close> loops: the value of the first
  item, in insertion order, whose key passes the test, else the value set before the loop.
\<close>

fun first_item :: "(string \<Rightarrow> bool) \<Rightarrow> (string \<times> string) list \<Rightarrow> string \<Rightarrow> string" where
  "first_item test [] dflt = dflt"
| "first_item test ((k, v) # kvs) dflt = (if test k then v else first_item test kvs dflt)"

definition affected_services_of :: "string \<Rightarrow> string list" where
  "affected_services_of r =
     (if contains ''db'' r then [''database-primary'', ''order-service'', ''inventory-service'']
      else if contains ''api'' r then [''api-gateway'', ''payment-service'']
      else if contains ''cache'' r then [''redis-cache'', ''session-service'']
      else [r])"

text \<open>The keys of the metrics whose value is a number above 80, in dict order.\<close>

definition elevated :: "(string \<times> json) list \<Rightarrow> string list" where
  "elevated kvs = map fst (filter (\<lambda>(k, v). is_number v \<and> greater_than v 80 = Inr True) kvs)"

definition items :: "json \<Rightarrow> py_error + (string \<times> json) list" where
  "items m = (case m of JDict kvs \<Rightarrow> Inr kvs | _ \<Rightarrow> Inl AttributeError)"

definition triage_alert :: "ProcessedAlert \<Rightarrow> handler_result" where
  "triage_alert a =
     (let sev = get_default severity_map (pa_severity a) ''sev3'';
          team = first_item (\<lambda>prefix. startswith (pa_resource a) prefix) SERVICE_TEAMS
                   ''platform-sre-team'';
          services = affected_services_of (pa_resource a)
      in on_value (subscript RUNBOOKS ''default'') (\<lambda>default_url.
         (let runbook = first_item
                          (\<lambda>keyword. contains keyword (lower (pa_title a))
                                    \<or> contains keyword (lower (pa_description a)))
                          RUNBOOKS default_url;
              metrics = pa_metrics a
          in
         on_value (metrics_get metrics ''cpu_percent'' (JInt 0)) (\<lambda>cpu.
         on_value (greater_than cpu 90) (\<lambda>cpu_high.
         on_value (metrics_get metrics ''memory_percent'' (JInt 0)) (\<lambda>mem.
         on_value (greater_than mem 85) (\<lambda>mem_high.
         (let actions0 = (if cpu_high
                          then [''Check for runaway processes'', ''Consider scaling up or out'']
                          else [])
                       @ (if mem_high
                          then [''Identify memory-intensive queries'', ''Check for memory leaks'']
                          else []);
              actions = (if actions0 = []
                         then [''Review recent deployments'', ''Check system logs for errors'']
                         else actions0)
          in on_value (items metrics) (\<lambda>kvs.
             on_value (subscript priority_map sev) (\<lambda>prio.
             (let t = \<lparr> alert = a,
                        incident_severity = sev,
                        incident_title = ''['' @ upper sev @ ''] '' @ pa_title a,
                        summary = pa_description a @ ''. Resource: '' @ pa_resource a
                                  @ ''. Current metrics show elevated ''
                                  @ join '', '' (elevated kvs) @ ''.'',
                        affected_services = services,
                        recommended_actions = actions,
                        assigned_team = team,
                        runbook_url = runbook,
                        priority = prio \<rparr>
              in if sev \<in> set [''sev1'', ''sev2'']
                 then Inr [request_info (MTriageResult t) TTriageApproval]
                 else Inr [send_message (MTriageResult t)])))))))))))"

definition handle_approval :: "TriageResult \<Rightarrow> TriageApproval \<Rightarrow> handler_result" where
  "handle_approval original_triage r =
     (if startswith (approval_str (approved r)) ''override'' then
        on_value (last_item (split (approval_str (approved r)))) (\<lambda>new_severity.
        on_value (subscript [(''sev1'', ''P1''), (''sev2'', ''P2''), (''sev3'', ''P3'')] new_severity)
          (\<lambda>prio.
             Inr [send_message (MTriageResult
                   (original_triage\<lparr> incident_severity := new_severity,
                       incident_title := ''['' @ upper new_severity @ ''] ''
                                         @ pa_title (alert original_triage),
                       priority := prio \<rparr>))]))
      else Inr [send_message (MTriageResult original_triage)])"

subsection \<open>GitHubIssueCreator\<close>

definition create_issue :: "env \<Rightarrow> string \<Rightarrow> TriageResult \<Rightarrow> handler_result" where
  "create_issue e now t =
     (let number = hash e (pa_alert_id (alert t)) mod 10000 + 1000;
          issue = \<lparr> triage = t,
                    issue_number = number,
                    issue_url = ''https://github.com/contoso/incidents/issues/'' @ str_of_int number,
                    labels = [''severity:'' @ incident_severity t,
                              ''priority:'' @ priority t,
                              ''incident'',
                              assigned_team t],
                    created_at = now \<rparr>
      in Inr [send_message (MGitHubIssue issue)])"

subsection \<open>TeamsNotifier\<close>

definition channel_map :: "(string \<times> string) list" where
  "channel_map =
     [(''sev1'', ''#incident-critical''),
      (''sev2'', ''#incident-high''),
      (''sev3'', ''#ops-alerts''),
      (''sev4'', ''#ops-info'')]"

definition notify_teams :: "env \<Rightarrow> string \<Rightarrow> GitHubIssue \<Rightarrow> handler_result" where
  "notify_teams e now i =
     (let notification =
            \<lparr> github_issue = i,
              channel = get_default channel_map (incident_severity (triage i)) ''#ops-alerts'',
              message_id = ''msg-'' @ str_of_int (hash e (issue_url i) mod 100000),
              posted_at = now,
              success = True \<rparr>
      in Inr [send_message (MTeamsNotification notification)])"

subsection \<open>IncidentReporter\<close>

text \<open>The non-ASCII characters of the report template, as UTF-8.\<close>

definition red_circle :: string where "red_circle = [CHR 0xF0, CHR 0x9F, CHR 0x94, CHR 0xB4]"
definition orange_circle :: string where "orange_circle = [CHR 0xF0, CHR 0x9F, CHR 0x9F, CHR 0xA0]"
definition yellow_circle :: string where "yellow_circle = [CHR 0xF0, CHR 0x9F, CHR 0x9F, CHR 0xA1]"
definition blue_circle :: string where "blue_circle = [CHR 0xF0, CHR 0x9F, CHR 0x94, CHR 0xB5]"
definition white_circle :: string where "white_circle = [CHR 0xE2, CHR 0x9A, CHR 0xAA]"
definition clipboard :: string where "clipboard = [CHR 0xF0, CHR 0x9F, CHR 0x93, CHR 0x8B]"
definition ticket :: string where "ticket = [CHR 0xF0, CHR 0x9F, CHR 0x8E, CHR 0xAB]"
definition link :: string where "link = [CHR 0xF0, CHR 0x9F, CHR 0x94, CHR 0x97]"
definition bar_chart :: string where "bar_chart = [CHR 0xF0, CHR 0x9F, CHR 0x93, CHR 0x8A]"
definition bullet :: string where "bullet = [CHR 0xE2, CHR 0x80, CHR 0xA2]"
definition warning :: string where
  "warning = [CHR 0xE2, CHR 0x9A, CHR 0xA0, CHR 0xEF, CHR 0xB8, CHR 0x8F]"
definition memo :: string where "memo = [CHR 0xF0, CHR 0x9F, CHR 0x93, CHR 0x9D]"
definition check_mark_button :: string where "check_mark_button = [CHR 0xE2, CHR 0x9C, CHR 0x85]"
definition books :: string where "books = [CHR 0xF0, CHR 0x9F, CHR 0x93, CHR 0x9A]"
definition speech_balloon :: string where
  "speech_balloon = [CHR 0xF0, CHR 0x9F, CHR 0x92, CHR 0xAC]"
definition check_mark :: string where "check_mark = [CHR 0xE2, CHR 0x9C, CHR 0x93]"
definition ballot_x :: string where "ballot_x = [CHR 0xE2, CHR 0x9C, CHR 0x97]"
definition double_line :: string where "double_line = [CHR 0xE2, CHR 0x95, CHR 0x90]"

definition rule_line :: string where
  "rule_line = concat (replicate 40 double_line)"

definition newline :: string where
  "newline = [CHR 0x0A]"

definition severity_emoji :: "(string \<times> string) list" where
  "severity_emoji =
     [(''sev1'', red_circle), (''sev2'', orange_circle),
      (''sev3'', yellow_circle), (''sev4'', blue_circle)]"

text \<open>
  The conditional expression in the "Recommended Actions" field: with more than one action
  a newline followed by the first two, joined by the text \<open>"   2. "\<close>; with one, that one.
\<close>

definition actions_text :: "string list \<Rightarrow> string" where
  "actions_text acts =
     (if length acts > 1 then newline @ join ''   2. '' (take 2 acts)
      else if acts \<noteq> [] then hd acts
      else ''Review logs'')"

definition report_template :: "TeamsNotification \<Rightarrow> string" where
  "report_template n =
     (let issue = github_issue n;
          t = triage issue;
          emoji = get_default severity_emoji (incident_severity t) white_circle
      in newline
       @ emoji @ '' INCIDENT RESPONSE COMPLETE '' @ emoji @ newline
       @ rule_line @ newline
       @ newline
       @ clipboard @ '' Incident: '' @ incident_title t @ newline
       @ ticket @ '' Ticket: #'' @ str_of_int (issue_number issue) @ newline
       @ link @ '' GitHub: '' @ issue_url issue @ newline
       @ newline
       @ bar_chart @ '' Classification:'' @ newline
       @ ''   '' @ bullet @ '' Severity: '' @ upper (incident_severity t) @ newline
       @ ''   '' @ bullet @ '' Priority: '' @ priority t @ newline
       @ ''   '' @ bullet @ '' Assigned: '' @ assigned_team t @ newline
       @ newline
       @ warning @ '' Affected Services:'' @ newline
       @ ''   '' @ bullet @ '' ''
           @ (newline @ join (''   '' @ bullet @ '' '') (affected_services t)) @ newline
       @ newline
       @ memo @ '' Summary:'' @ newline
       @ ''   '' @ summary t @ newline
       @ newline
       @ check_mark_button @ '' Recommended Actions:'' @ newline
       @ ''   1. '' @ actions_text (recommended_actions t) @ newline
       @ newline
       @ books @ '' Runbook: '' @ runbook_url t @ newline
       @ newline
       @ speech_balloon @ '' Teams Notification:'' @ newline
       @ ''   '' @ bullet @ '' Channel: '' @ channel n @ newline
       @ ''   '' @ bullet @ '' Status: ''
           @ (if success n then check_mark @ '' Posted'' else ballot_x @ '' Failed'') @ newline
       @ newline
       @ rule_line @ newline
       @ ''        '')"

definition generate_report :: "TeamsNotification \<Rightarrow> handler_result" where
  "generate_report n = Inr [yield_output (strip (report_template n))]"

section \<open>The workflow engine\<close>

text \<open>
  The workflow is built and run by the imported \<open>agent_framework\<close> package
  (\<open>Executor\<close>, \<open>WorkflowBuilder\<close>, \<open>WorkflowContext\<close>), whose code is not part of the
  sources. The definitions of this section follow the specification's description of that
  engine.
\<close>

datatype engine_error =
    UnroutableMessage
  | NoMatchingRoute
  | ResponseTypeMismatch
  | UnknownOrExpiredRequest
  | HandlerRaised py_error

text \<open>
  Modelled from the spec: the Executor of the engine. It is a named unit with handlers
  keyed by the type of the incoming message, and response handlers bound to an original
  request payload and a response. \<open>None\<close> says that no handler is declared for the type.
\<close>

record Executor =
  on_message :: "env \<Rightarrow> string \<Rightarrow> message \<Rightarrow> handler_result option"
  on_response :: "message \<Rightarrow> response \<Rightarrow> handler_result option"

text \<open>
  Modelled from the spec: the Edge and Graph of the engine. An edge is (source, condition,
  target); the condition is "always" (the default edge) or a predicate over the outgoing
  message (a case edge).
\<close>

datatype condition = Always | Case "message \<Rightarrow> bool"

record Graph =
  start_executor :: string
  executors :: "(string \<times> Executor) list"
  edges :: "(string \<times> condition \<times> string) list"

text \<open>
  Modelled from the spec: the PendingRequest entry, the record of handler invocations and
  the Run owning the pending requests, the ordered outputs and, once the run has failed,
  the error.
\<close>

record PendingRequest =
  origin :: string
  payload :: message
  expected :: response_type

datatype event = Handled string message | Responded string nat

record Run =
  pending :: "(nat \<times> PendingRequest) list"
  next_id :: nat
  outputs :: "string list"
  trace :: "event list"
  failure :: "engine_error option"

definition new_run :: Run where
  "new_run = \<lparr> pending = [], next_id = 0, outputs = [], trace = [], failure = None \<rparr>"



fun holds :: "condition \<Rightarrow> message \<Rightarrow> bool" where
  "holds Always m = False"
| "holds (Case p) m = p m"

fun is_default :: "condition \<Rightarrow> bool" where
  "is_default Always = True"
| "is_default (Case p) = False"

text \<open>
  Modelled from the spec: routing of an outgoing message (section 4.2). The outgoing edges
  of the source are evaluated in declaration order; the first case edge whose predicate
  holds is taken, else the default edge, else the message is undeliverable. An executor
  with no declared successor is a dead end.
\<close>

definition route :: "Graph \<Rightarrow> string \<Rightarrow> message \<Rightarrow> engine_error + string list" where
  "route g src m =
     (let out = filter (\<lambda>(s, c, t). s = src) (edges g)
      in if out = [] then Inr []
         else case find (\<lambda>(s, c, t). holds c m) out of
                Some (s, c, t) \<Rightarrow> Inr [t]
              | None \<Rightarrow> (case find (\<lambda>(s, c, t). is_default c) out of
                           Some (s, c, t) \<Rightarrow> Inr [t]
                         | None \<Rightarrow> Inl NoMatchingRoute))"

text \<open>
  Modelled from the spec: what the engine does with the context calls of one handler
  invocation of executor \<open>src\<close>. A sent message is routed and queued for its target; a
  request gets a fresh correlation id and an entry in the pending request table
  (section 4.3); a yielded value is appended to the outputs and goes nowhere further
  (section 4.4).
\<close>

fun perform ::
  "Graph \<Rightarrow> string \<Rightarrow> ctx_call list \<Rightarrow> Run \<Rightarrow> (string \<times> message) list
     \<Rightarrow> Run \<times> (string \<times> message) list" where
  "perform g src [] r q = (r, q)"
| "perform g src (send_message m # cs) r q =
     (case route g src m of
        Inl x \<Rightarrow> (r\<lparr>failure := Some x\<rparr>, q)
      | Inr ts \<Rightarrow> perform g src cs r (q @ map (\<lambda>t. (t, m)) ts))"
| "perform g src (request_info p ty # cs) r q =
     perform g src cs
       (r\<lparr>pending := pending r @ [(next_id r, \<lparr>origin = src, payload = p, expected = ty\<rparr>)],
          next_id := Suc (next_id r)\<rparr>) q"
| "perform g src (yield_output v # cs) r q =
     perform g src cs (r\<lparr>outputs := outputs r @ [v]\<rparr>) q"

text \<open>
  Modelled from the spec: the dispatch loop of the Runner (sections 2 and 4.1). It takes the
  next message in flight, selects the handler of the target executor for the message's
  type (UnroutableMessage if there is none), runs it to completion and performs its
  context calls, until no message is in flight or the run has failed. A graph may have
  cycles, so the loop is bounded by the number of handler invocations \<open>fuel\<close>; \<open>None\<close> says
  that the bound was reached with messages still in flight.
\<close>

fun dispatch :: "Graph \<Rightarrow> env \<Rightarrow> nat \<Rightarrow> (string \<times> message) list \<Rightarrow> Run \<Rightarrow> Run option" where
  "dispatch g e fuel [] r = Some r"
| "dispatch g e 0 ((x, m) # q) r = None"
| "dispatch g e (Suc fuel) ((x, m) # q) r =
     (case map_of (executors g) x of
        None \<Rightarrow> Some (r\<lparr>failure := Some UnroutableMessage\<rparr>)
      | Some ex \<Rightarrow>
         (case on_message ex e (now_isoformat e (length (trace r))) m of
            None \<Rightarrow> Some (r\<lparr>failure := Some UnroutableMessage\<rparr>)
          | Some h \<Rightarrow>
             (let r1 = r\<lparr>trace := trace r @ [Handled x m]\<rparr>
              in case h of
                   Inl err \<Rightarrow> Some (r1\<lparr>failure := Some (HandlerRaised err)\<rparr>)
                 | Inr calls \<Rightarrow>
                    (case perform g x calls r1 q of (r2, q2) \<Rightarrow>
                       if failure r2 \<noteq> None then Some r2 else dispatch g e fuel q2 r2))))"

text \<open>Modelled from the spec: submitting an initial message to the Runner (section 6).\<close>

definition submit :: "Graph \<Rightarrow> env \<Rightarrow> nat \<Rightarrow> message \<Rightarrow> Run option" where
  "submit g e fuel m = dispatch g e fuel [(start_executor g, m)] new_run"

text \<open>
  Modelled from the spec: the resume call (section 4.3). The correlation id must be open
  (UnknownOrExpiredRequest otherwise) and the response must have the recorded expected type
  (ResponseTypeMismatch otherwise, the entry staying in the table). Then the entry is
  removed, the response handler of the origin executor is invoked on the original payload
  and the response, and its messages are routed and dispatched as before. Misuse is
  reported to the caller and leaves the run as it was. An origin executor without a
  response handler for the pair is a misconfigured graph: the run fails with
  UnroutableMessage, as for a message without a handler.
\<close>

definition resume ::
  "Graph \<Rightarrow> env \<Rightarrow> nat \<Rightarrow> Run \<Rightarrow> nat \<Rightarrow> response \<Rightarrow> (engine_error + Run) option" where
  "resume g e fuel r cid resp =
     (case map_of (pending r) cid of
        None \<Rightarrow> Some (Inl UnknownOrExpiredRequest)
      | Some p \<Rightarrow>
         if response_type_of resp \<noteq> expected p then Some (Inl ResponseTypeMismatch)
         else
           (let r1 = r\<lparr>pending := AList.delete cid (pending r)\<rparr>
            in case map_of (executors g) (origin p) of
                 None \<Rightarrow> Some (Inr (r1\<lparr>failure := Some UnroutableMessage\<rparr>))
               | Some ex \<Rightarrow>
                  (case on_response ex (payload p) resp of
                     None \<Rightarrow> Some (Inr (r1\<lparr>failure := Some UnroutableMessage\<rparr>))
                   | Some h \<Rightarrow>
                      (let r2 = r1\<lparr>trace := trace r1 @ [Responded (origin p) cid]\<rparr>
                       in case h of
                            Inl err \<Rightarrow> Some (Inr (r2\<lparr>failure := Some (HandlerRaised err)\<rparr>))
                          | Inr calls \<Rightarrow>
                             (case perform g (origin p) calls r2 [] of (r3, q3) \<Rightarrow>
                                if failure r3 \<noteq> None then Some (Inr r3)
                                else map_option Inr (dispatch g e fuel q3 r3))))))"

section \<open>Workflow definition\<close>

definition alert_processor :: Executor where
  "alert_processor =
     \<lparr> on_message = (\<lambda>e now m. case m of MAlertInput a \<Rightarrow> Some (process_alert e now a) | _ \<Rightarrow> None),
       on_response = (\<lambda>p r. None) \<rparr>"

definition incident_triage :: Executor where
  "incident_triage =
     \<lparr> on_message = (\<lambda>e now m. case m of MProcessedAlert a \<Rightarrow> Some (triage_alert a) | _ \<Rightarrow> None),
       on_response = (\<lambda>p r. case (p, r) of
                               (MTriageResult t, RTriageApproval a) \<Rightarrow> Some (handle_approval t a)
                             | _ \<Rightarrow> None) \<rparr>"

definition github_creator :: Executor where
  "github_creator =
     \<lparr> on_message = (\<lambda>e now m. case m of MTriageResult t \<Rightarrow> Some (create_issue e now t) | _ \<Rightarrow> None),
       on_response = (\<lambda>p r. None) \<rparr>"

definition teams_notifier :: Executor where
  "teams_notifier =
     \<lparr> on_message = (\<lambda>e now m. case m of MGitHubIssue i \<Rightarrow> Some (notify_teams e now i) | _ \<Rightarrow> None),
       on_response = (\<lambda>p r. None) \<rparr>"

definition incident_reporter :: Executor where
  "incident_reporter =
     \<lparr> on_message = (\<lambda>e now m. case m of MTeamsNotification n \<Rightarrow> Some (generate_report n) | _ \<Rightarrow> None),
       on_response = (\<lambda>p r. None) \<rparr>"

definition workflow :: Graph where
  "workflow =
     \<lparr> start_executor = ''alert_processor'',
       executors = [(''alert_processor'', alert_processor),
                    (''incident_triage'', incident_triage),
                    (''github_creator'', github_creator),
                    (''teams_notifier'', teams_notifier),
                    (''incident_reporter'', incident_reporter)],
       edges = [(''alert_processor'', Always, ''incident_triage''),
                (''incident_triage'', Always, ''github_creator''),
                (''github_creator'', Always, ''teams_notifier''),
                (''teams_notifier'', Always, ''incident_reporter'')] \<rparr>"

section \<open>Notions used in the statements\<close>

text \<open>The \<open>AlertInput\<close> built from the field defaults of the class.\<close>

definition default_alert :: AlertInput where
  "default_alert =
     \<lparr> ai_alert_id = ''ALT-2026-0131-001'',
       ai_title = ''Database Server CPU Critical'',
       ai_severity = critical,
       ai_description = ''vm-db-01 CPU utilization exceeded 90% for more than 5 minutes'',
       ai_source = ''Azure Monitor'',
       ai_resource = ''vm-db-01'',
       ai_metrics = ''{\"cpu_percent\": 94.7, \"memory_percent\": 88.5}'' \<rparr>"

text \<open>
  A sample environment for concrete runs: a decoder that knows the default metrics text and
  rejects every other text, a hash, and a clock that stands still.
\<close>

definition sample_env :: env where
  "sample_env =
     \<lparr> json_loads = (\<lambda>s. if s = ''{\"cpu_percent\": 94.7, \"memory_percent\": 88.5}''
                          then Some (JDict [(''cpu_percent'', JFloat (947 / 10)),
                                            (''memory_percent'', JFloat (177 / 2))])
                          else None),
       hash = (\<lambda>s. - int (length s)),
       now_isoformat = (\<lambda>n. ''2026-01-31T09:00:00'') \<rparr>"

text \<open>
  The metrics that the triage handler can read without raising: a dict whose
  \<open>cpu_percent\<close> and \<open>memory_percent\<close> gauges, where present, are numbers.
\<close>

definition numeric_gauges :: "json \<Rightarrow> bool" where
  "numeric_gauges m =
     (case m of
        JDict kvs \<Rightarrow> is_number (get_default kvs ''cpu_percent'' (JInt 0))
                   \<and> is_number (get_default kvs ''memory_percent'' (JInt 0))
      | _ \<Rightarrow> False)"

text \<open>
  An alert is well formed for a decoder when its metrics text either fails to decode or
  decodes to such a dict.
\<close>

definition well_formed :: "env \<Rightarrow> AlertInput \<Rightarrow> bool" where
  "well_formed e a =
     (case json_loads e (ai_metrics a) of None \<Rightarrow> True | Some j \<Rightarrow> numeric_gauges j)"





text \<open>The runs of a graph: those returned by submit, and by resume on a run.\<close>

inductive reachable :: "Graph \<Rightarrow> env \<Rightarrow> Run \<Rightarrow> bool" for g :: Graph and e :: env where
  submitted: "submit g e fuel m = Some r \<Longrightarrow> reachable g e r"
| resumed: "reachable g e r \<Longrightarrow> resume g e fuel r cid resp = Some (Inr r') \<Longrightarrow> reachable g e r'"

text \<open>The input type in the signature of each executor's message handler.\<close>

definition declared_input :: "(string \<times> message_type) list" where
  "declared_input =
     [(''alert_processor'', TAlertInput),
      (''incident_triage'', TProcessedAlert),
      (''github_creator'', TTriageResult),
      (''teams_notifier'', TGitHubIssue),
      (''incident_reporter'', TTeamsNotification)]"

text \<open>
  The types of the messages that a handler invocation hands to the engine, whether sent
  downstream or attached to a request.
\<close>

fun call_types :: "ctx_call list \<Rightarrow> message_type list" where
  "call_types [] = []"
| "call_types (send_message m # cs) = type_of m # call_types cs"
| "call_types (request_info m ty # cs) = type_of m # call_types cs"
| "call_types (yield_output v # cs) = call_types cs"

definition sent_types :: "handler_result \<Rightarrow> message_type list" where
  "sent_types h = (case h of Inl x \<Rightarrow> [] | Inr calls \<Rightarrow> call_types calls)"

text \<open>
  A run is well typed when every handled message has the declared input type of its
  executor, every open request is a TriageResult of the triage executor awaiting a
  TriageApproval, and the run has not failed for a message without handler or route.
\<close>

fun event_typed :: "event \<Rightarrow> bool" where
  "event_typed (Handled x m) = (map_of declared_input x = Some (type_of m))"
| "event_typed (Responded x c) = (x = ''incident_triage'')"

definition pending_typed :: "nat \<times> PendingRequest \<Rightarrow> bool" where
  "pending_typed kp =
     (origin (snd kp) = ''incident_triage'' \<and> type_of (payload (snd kp)) = TTriageResult
      \<and> expected (snd kp) = TTriageApproval)"

definition well_typed :: "Run \<Rightarrow> bool" where
  "well_typed r =
     (list_all event_typed (trace r) \<and> list_all pending_typed (pending r)
      \<and> failure r \<noteq> Some UnroutableMessage \<and> failure r \<noteq> Some NoMatchingRoute)"

text \<open>The messages in flight are typed when each has the declared input type of its target.\<close>

definition queue_typed :: "(string \<times> message) list \<Rightarrow> bool" where
  "queue_typed q = list_all (\<lambda>(x, m). map_of declared_input x = Some (type_of m)) q"

section \<open>The handlers on their own\<close>

lemma process_alert_sends:
  "process_alert e now a =
     Inr [send_message (MProcessedAlert
       \<lparr> pa_alert_id = ai_alert_id a, pa_title = ai_title a,
         pa_severity = severity_str (ai_severity a), pa_description = ai_description a,
         pa_source = ai_source a, pa_resource = ai_resource a,
         pa_metrics = (case json_loads e (ai_metrics a) of None \<Rightarrow> JDict [] | Some j \<Rightarrow> j),
         received_at = now,
         is_valid = (ai_alert_id a \<noteq> [] \<and> ai_title a \<noteq> []),
         validation_errors = (if ai_alert_id a = [] then [''Missing alert_id''] else [])
                           @ (if ai_title a = [] then [''Missing title''] else []) \<rparr>)]"
  by (cases "ai_severity a") (simp_all add: process_alert_def Let_def)

lemma runbooks_map:
  "map_of RUNBOOKS ''default'' = Some ''https://wiki.contoso.com/runbooks/general-triage''"
  by (simp add: RUNBOOKS_def)

lemma runbooks_default:
  "subscript RUNBOOKS ''default'' = Inr ''https://wiki.contoso.com/runbooks/general-triage''"
  by (simp add: subscript_def runbooks_map)

subsection \<open>Substrings\<close>

lemma contains_here: "contains sub (sub @ ys)"
proof (cases "sub @ ys")
  case Nil
  then show ?thesis by simp
next
  case (Cons a l)
  have "startswith (sub @ ys) sub" by (simp add: startswith_def)
  then show ?thesis unfolding Cons by simp
qed

lemma contains_ConsI: "contains sub ys \<Longrightarrow> contains sub (c # ys)"
  by simp

lemma contains_appendI: "contains sub ys \<Longrightarrow> contains sub (xs @ ys)"
  by (induction xs) simp_all

lemma contains_here2: "contains (a @ b) (a @ b @ ys)"
  using contains_here[of "a @ b" ys] by simp

lemma contains_iff: "contains sub s \<longleftrightarrow> (\<exists>pre post. s = pre @ sub @ post)"
proof
  show "contains sub s \<Longrightarrow> \<exists>pre post. s = pre @ sub @ post"
  proof (induction s)
    case Nil
    then show ?case by simp
  next
    case (Cons c cs)
    show ?case
    proof (cases "startswith (c # cs) sub")
      case True
      then have "c # cs = [] @ sub @ drop (length sub) (c # cs)"
        by (metis append_Nil append_take_drop_id startswith_def)
      then show ?thesis by blast
    next
      case False
      with Cons.prems have "contains sub cs" by simp
      from Cons.IH[OF this] obtain pre post where "cs = pre @ sub @ post" by blast
      then have "c # cs = (c # pre) @ sub @ post" by simp
      then show ?thesis by blast
    qed
  qed
next
  assume "\<exists>pre post. s = pre @ sub @ post"
  then obtain pre post where "s = pre @ sub @ post" by blast
  then show "contains sub s"
    by (simp add: contains_appendI contains_here)
qed






lemma report_has_title:
  "contains ('' Incident: '' @ incident_title (triage (github_issue n))) (report_template n)"
  unfolding report_template_def Let_def
  by ((rule contains_here2 | rule contains_appendI)+)

lemma report_has_channel:
  "contains ('' Channel: '' @ channel n) (report_template n)"
  unfolding report_template_def Let_def
  by ((rule contains_here2 | rule contains_appendI)+)



subsection \<open>Steps of the engine on the workflow\<close>

lemma fuel_unfold:
  "2 \<le> fuel \<Longrightarrow> \<exists>k. fuel = Suc (Suc k)"
  "3 \<le> fuel \<Longrightarrow> \<exists>k. fuel = Suc (Suc (Suc k))"
  "5 \<le> fuel \<Longrightarrow> \<exists>k. fuel = Suc (Suc (Suc (Suc (Suc k))))"
  by presburger+

lemma route_workflow:
  "route workflow ''alert_processor'' m = Inr [''incident_triage'']"
  "route workflow ''incident_triage'' m = Inr [''github_creator'']"
  "route workflow ''github_creator'' m = Inr [''teams_notifier'']"
  "route workflow ''teams_notifier'' m = Inr [''incident_reporter'']"
  "route workflow ''incident_reporter'' m = Inr []"
  by (simp_all add: route_def workflow_def)

lemma workflow_executors:
  "map_of (executors workflow) ''alert_processor'' = Some alert_processor"
  "map_of (executors workflow) ''incident_triage'' = Some incident_triage"
  "map_of (executors workflow) ''github_creator'' = Some github_creator"
  "map_of (executors workflow) ''teams_notifier'' = Some teams_notifier"
  "map_of (executors workflow) ''incident_reporter'' = Some incident_reporter"
  by (simp_all add: workflow_def)

lemma greater_than_number: "is_number v \<Longrightarrow> \<exists>b. greater_than v n = Inr b"
  by (cases v) auto

lemma upper_sev:
  "upper ''sev1'' = ''SEV1''" "upper ''sev2'' = ''SEV2''"
  "upper ''sev3'' = ''SEV3''" "upper ''sev4'' = ''SEV4''"
  by code_simp+

lemma split_override:
  "split ''override to sev1'' = [''override'', ''to'', ''sev1'']"
  "split ''override to sev2'' = [''override'', ''to'', ''sev2'']"
  "split ''override to sev3'' = [''override'', ''to'', ''sev3'']"
  by code_simp+

lemma handle_approval_approve:
  "approved r = approve \<Longrightarrow> handle_approval t r = Inr [send_message (MTriageResult t)]"
  by (simp add: handle_approval_def startswith_def)

lemma handle_approval_override:
  "approved r = override_to_sev1 \<Longrightarrow> handle_approval t r =
     Inr [send_message (MTriageResult (t\<lparr>incident_severity := ''sev1'',
            incident_title := ''[SEV1] '' @ pa_title (alert t), priority := ''P1''\<rparr>))]"
  "approved r = override_to_sev2 \<Longrightarrow> handle_approval t r =
     Inr [send_message (MTriageResult (t\<lparr>incident_severity := ''sev2'',
            incident_title := ''[SEV2] '' @ pa_title (alert t), priority := ''P2''\<rparr>))]"
  "approved r = override_to_sev3 \<Longrightarrow> handle_approval t r =
     Inr [send_message (MTriageResult (t\<lparr>incident_severity := ''sev3'',
            incident_title := ''[SEV3] '' @ pa_title (alert t), priority := ''P3''\<rparr>))]"
  by (simp_all add: handle_approval_def startswith_def split_override last_item_def
        subscript_def on_value_def upper_sev)

lemma downstream:
  assumes "failure r = None"
  shows "\<exists>i n. dispatch workflow e (Suc (Suc (Suc k))) [(''github_creator'', MTriageResult t)] r
           = Some (r\<lparr>trace := trace r @ [Handled ''github_creator'' (MTriageResult t),
                                          Handled ''teams_notifier'' (MGitHubIssue i),
                                          Handled ''incident_reporter'' (MTeamsNotification n)],
                     outputs := outputs r @ [strip (report_template n)]\<rparr>)
         \<and> create_issue e (now_isoformat e (length (trace r))) t = Inr [send_message (MGitHubIssue i)]
         \<and> notify_teams e (now_isoformat e (Suc (length (trace r)))) i
             = Inr [send_message (MTeamsNotification n)]"
  using assms
  by (simp add: workflow_executors route_workflow github_creator_def teams_notifier_def
        incident_reporter_def create_issue_def notify_teams_def generate_report_def Let_def)

subsection \<open>Runs of the workflow\<close>

lemma triage_alert_ok:
  assumes g: "numeric_gauges (pa_metrics p)" and s: "pa_severity p = severity_str s"
  shows "\<exists>t. triage_alert p =
               Inr [if s = critical \<or> s = high then request_info (MTriageResult t) TTriageApproval
                    else send_message (MTriageResult t)]
           \<and> alert t = p
           \<and> incident_severity t = (case s of critical \<Rightarrow> ''sev1'' | high \<Rightarrow> ''sev2''
                                     | medium \<Rightarrow> ''sev3'' | low \<Rightarrow> ''sev4'')
           \<and> priority t = (case s of critical \<Rightarrow> ''P1'' | high \<Rightarrow> ''P2''
                            | medium \<Rightarrow> ''P3'' | low \<Rightarrow> ''P4'')
           \<and> incident_title t = ''['' @ upper (incident_severity t) @ ''] '' @ pa_title p"
proof -
  from g obtain kvs where m: "pa_metrics p = JDict kvs"
    and c: "is_number (get_default kvs ''cpu_percent'' (JInt 0))"
    and h: "is_number (get_default kvs ''memory_percent'' (JInt 0))"
    by (auto simp: numeric_gauges_def split: json.splits)
  from greater_than_number[OF c] obtain b1
    where b1: "greater_than (get_default kvs ''cpu_percent'' (JInt 0)) 90 = Inr b1" by blast
  from greater_than_number[OF h] obtain b2
    where b2: "greater_than (get_default kvs ''memory_percent'' (JInt 0)) 85 = Inr b2" by blast
  show ?thesis
    by (cases s)
       (simp_all add: triage_alert_def Let_def on_value_def runbooks_map metrics_get_def items_def m b1 b2 s
          severity_map_def priority_map_def subscript_def get_default_def[of severity_map]
          get_default_def[of "[(''critical'', ''sev1''), (''high'', ''sev2''), (''medium'', ''sev3''), (''low'', ''sev4'')]"])
qed

lemma well_formed_gauges:
  assumes "well_formed e a"
    and "process_alert e now a = Inr [send_message (MProcessedAlert p)]"
  shows "numeric_gauges (pa_metrics p) \<and> pa_severity p = severity_str (ai_severity a)"
  using assms
  by (auto simp: process_alert_sends well_formed_def numeric_gauges_def get_default_def
      split: option.splits)

lemma submit_to_triage:
  assumes p: "process_alert e (now_isoformat e 0) a = Inr [send_message (MProcessedAlert p)]"
  shows "submit workflow e (Suc k) (MAlertInput a)
         = dispatch workflow e k [(''incident_triage'', MProcessedAlert p)]
             (new_run\<lparr>trace := [Handled ''alert_processor'' (MAlertInput a)]\<rparr>)"
  using p
  by (simp add: submit_def workflow_executors route_workflow alert_processor_def new_run_def
      workflow_def[THEN arg_cong, of start_executor])


lemma submit_suspends:
  assumes sev: "ai_severity a = critical \<or> ai_severity a = high"
    and wf: "well_formed e a" and fuel: "2 \<le> fuel"
  shows "\<exists>p t. process_alert e (now_isoformat e 0) a = Inr [send_message (MProcessedAlert p)]
       \<and> triage_alert p = Inr [request_info (MTriageResult t) TTriageApproval]
       \<and> submit workflow e fuel (MAlertInput a)
         = Some \<lparr> pending = [(0, \<lparr>origin = ''incident_triage'', payload = MTriageResult t,
                                   expected = TTriageApproval\<rparr>)],
                  next_id = 1, outputs = [],
                  trace = [Handled ''alert_processor'' (MAlertInput a),
                           Handled ''incident_triage'' (MProcessedAlert p)],
                  failure = None \<rparr>"
proof -
  obtain p where p: "process_alert e (now_isoformat e 0) a = Inr [send_message (MProcessedAlert p)]"
    using process_alert_sends by blast
  from well_formed_gauges[OF wf p] triage_alert_ok[of p "ai_severity a"] sev
  obtain t where t: "triage_alert p = Inr [request_info (MTriageResult t) TTriageApproval]"
    by auto
  from fuel obtain k where k: "fuel = Suc (Suc k)"
    using fuel_unfold(1) by blast
  have "submit workflow e fuel (MAlertInput a)
         = Some \<lparr> pending = [(0, \<lparr>origin = ''incident_triage'', payload = MTriageResult t,
                                   expected = TTriageApproval\<rparr>)],
                  next_id = 1, outputs = [],
                  trace = [Handled ''alert_processor'' (MAlertInput a),
                           Handled ''incident_triage'' (MProcessedAlert p)],
                  failure = None \<rparr>"
    unfolding k submit_to_triage[OF p]
    by (simp add: workflow_executors incident_triage_def t new_run_def)
  with p t show ?thesis by blast
qed


lemma handle_approval_sends:
  "handle_approval t ap =
     Inr [send_message (MTriageResult
       (case approved ap of
          approve \<Rightarrow> t
        | override_to_sev1 \<Rightarrow> t\<lparr>incident_severity := ''sev1'',
              incident_title := ''[SEV1] '' @ pa_title (alert t), priority := ''P1''\<rparr>
        | override_to_sev2 \<Rightarrow> t\<lparr>incident_severity := ''sev2'',
              incident_title := ''[SEV2] '' @ pa_title (alert t), priority := ''P2''\<rparr>
        | override_to_sev3 \<Rightarrow> t\<lparr>incident_severity := ''sev3'',
              incident_title := ''[SEV3] '' @ pa_title (alert t), priority := ''P3''\<rparr>))]"
  by (cases "approved ap") (simp_all add: handle_approval_approve handle_approval_override)

lemma resume_completes:
  assumes pend: "pending r = [(cid, \<lparr>origin = ''incident_triage'', payload = MTriageResult t,
                                     expected = TTriageApproval\<rparr>)]"
    and ok: "failure r = None" and fuel: "3 \<le> fuel"
    and h: "handle_approval t ap = Inr [send_message (MTriageResult t')]"
  shows "\<exists>i n. create_issue e (now_isoformat e (Suc (length (trace r)))) t'
                 = Inr [send_message (MGitHubIssue i)]
       \<and> notify_teams e (now_isoformat e (Suc (Suc (length (trace r))))) i
           = Inr [send_message (MTeamsNotification n)]
       \<and> resume workflow e fuel r cid (RTriageApproval ap)
         = Some (Inr (r\<lparr>pending := [],
                        trace := trace r @ [Responded ''incident_triage'' cid,
                                            Handled ''github_creator'' (MTriageResult t'),
                                            Handled ''teams_notifier'' (MGitHubIssue i),
                                            Handled ''incident_reporter'' (MTeamsNotification n)],
                        outputs := outputs r @ [strip (report_template n)]\<rparr>))"
proof -
  from fuel obtain k where k: "fuel = Suc (Suc (Suc k))"
    using fuel_unfold(2) by blast
  let ?r2 = "r\<lparr>pending := [], trace := trace r @ [Responded ''incident_triage'' cid]\<rparr>"
  have f: "failure ?r2 = None" using ok by simp
  from downstream[OF f, of e k t'] obtain i n where
    d: "dispatch workflow e (Suc (Suc (Suc k))) [(''github_creator'', MTriageResult t')] ?r2
        = Some (?r2\<lparr>trace := trace ?r2 @ [Handled ''github_creator'' (MTriageResult t'),
                                            Handled ''teams_notifier'' (MGitHubIssue i),
                                            Handled ''incident_reporter'' (MTeamsNotification n)],
                      outputs := outputs ?r2 @ [strip (report_template n)]\<rparr>)"
    and ci: "create_issue e (now_isoformat e (length (trace ?r2))) t' = Inr [send_message (MGitHubIssue i)]"
    and nt: "notify_teams e (now_isoformat e (Suc (length (trace ?r2)))) i
             = Inr [send_message (MTeamsNotification n)]"
    by blast
  have "resume workflow e fuel r cid (RTriageApproval ap)
        = map_option Inr (dispatch workflow e (Suc (Suc (Suc k)))
                            [(''github_creator'', MTriageResult t')] ?r2)"
    unfolding k resume_def
    by (simp add: pend ok h workflow_executors incident_triage_def route_workflow Let_def
        del: dispatch.simps)
  with d ci nt show ?thesis by auto
qed

subsection \<open>Correlation ids\<close>













subsection \<open>Types along the pipeline\<close>

lemma triage_alert_calls:
  assumes "triage_alert p = Inr calls"
  shows "\<exists>t. calls = [request_info (MTriageResult t) TTriageApproval]
           \<or> calls = [send_message (MTriageResult t)]"
  using assms
  by (auto simp: triage_alert_def Let_def on_value_def runbooks_default split: sum.splits if_splits)

lemma perform_single_send:
  assumes "route g x m = Inr [y]"
  shows "perform g x [send_message m] r q = (r, q @ [(y, m)])"
  using assms by simp

lemma perform_trace: "perform g src calls r q = (r', q') \<Longrightarrow> trace r' = trace r"
  by (induction g src calls r q arbitrary: r' q' rule: perform.induct)
     (auto split: sum.splits)

lemma typed_step:
  assumes ty: "map_of declared_input x = Some (type_of m)"
    and wt: "well_typed r" and qt: "queue_typed q"
  shows "\<exists>ex h. map_of (executors workflow) x = Some ex \<and> on_message ex e now m = Some h
          \<and> (case h of Inl err \<Rightarrow> True
              | Inr calls \<Rightarrow> (case perform workflow x calls (r\<lparr>trace := trace r @ [Handled x m]\<rparr>) q of
                                (r2, q2) \<Rightarrow> well_typed r2 \<and> queue_typed q2))"
proof -
  have wt1: "well_typed (r\<lparr>trace := trace r @ [Handled x m]\<rparr>)"
    using wt ty by (simp add: well_typed_def)
  from ty consider
      (ap) a where "x = ''alert_processor''" "m = MAlertInput a"
    | (it) p where "x = ''incident_triage''" "m = MProcessedAlert p"
    | (gc) t where "x = ''github_creator''" "m = MTriageResult t"
    | (tn) i where "x = ''teams_notifier''" "m = MGitHubIssue i"
    | (ir) n where "x = ''incident_reporter''" "m = MTeamsNotification n"
    by (cases m) (auto simp: declared_input_def split: if_splits)
  then show ?thesis
  proof cases
    case ap
    then show ?thesis using wt1 qt
      by (simp add: workflow_executors alert_processor_def process_alert_sends route_workflow
          queue_typed_def declared_input_def)
  next
    case it
    show ?thesis
    proof (cases "triage_alert p")
      case (Inl err)
      then show ?thesis using it by (simp add: workflow_executors incident_triage_def)
    next
      case (Inr calls)
      from triage_alert_calls[OF Inr] obtain t where
        "calls = [request_info (MTriageResult t) TTriageApproval]
         \<or> calls = [send_message (MTriageResult t)]" by blast
      then show ?thesis using it Inr wt1 qt
        by (auto simp: workflow_executors incident_triage_def route_workflow queue_typed_def
            declared_input_def well_typed_def pending_typed_def)
    qed
  next
    case gc
    then show ?thesis using wt1 qt
      by (simp add: workflow_executors github_creator_def create_issue_def Let_def route_workflow
          queue_typed_def declared_input_def)
  next
    case tn
    then show ?thesis using wt1 qt
      by (simp add: workflow_executors teams_notifier_def notify_teams_def Let_def route_workflow
          queue_typed_def declared_input_def)
  next
    case ir
    then show ?thesis using wt1 qt
      by (simp add: workflow_executors incident_reporter_def generate_report_def
          queue_typed_def well_typed_def)
  qed
qed


lemma dispatch_typed:
  assumes "dispatch g e fuel q r = Some r'" and "g = workflow"
    and "well_typed r" and "queue_typed q"
  shows "well_typed r'"
  using assms
proof (induction g e fuel q r arbitrary: r' rule: dispatch.induct)
  case (1 g e fuel r)
  then show ?case by simp
next
  case (2 g e x m q r)
  then show ?case by simp
next
  case (3 g e fuel x m q r)
  from 3(5) have ty: "map_of declared_input x = Some (type_of m)" and qt: "queue_typed q"
    by (simp_all add: queue_typed_def)
  let ?r1 = "r\<lparr>trace := trace r @ [Handled x m]\<rparr>"
  from typed_step[OF ty 3(4) qt, of e "now_isoformat e (length (trace r))"] obtain ex h where
    ex: "map_of (executors g) x = Some ex"
    and h: "on_message ex e (now_isoformat e (length (trace r))) m = Some h"
    and st: "case h of Inl err \<Rightarrow> True
             | Inr calls \<Rightarrow> (case perform workflow x calls ?r1 q of
                               (r2, q2) \<Rightarrow> well_typed r2 \<and> queue_typed q2)"
    using 3(3) by blast
  have wt1: "well_typed ?r1" using 3(4) ty by (simp add: well_typed_def)
  show ?case
  proof (cases h)
    case (Inl err)
    with ex h 3(2) have "r' = ?r1\<lparr>failure := Some (HandlerRaised err)\<rparr>" by simp
    with wt1 show ?thesis by (simp add: well_typed_def)
  next
    case (Inr calls)
    obtain r2 q2 where p: "perform g x calls ?r1 q = (r2, q2)"
      by (cases "perform g x calls ?r1 q")
    with st Inr 3(3) have wt2: "well_typed r2" and qt2: "queue_typed q2" by simp_all
    show ?thesis
    proof (cases "failure r2 \<noteq> None")
      case True
      with ex h Inr p 3(2) have "r' = r2" by simp
      with wt2 show ?thesis by simp
    next
      case False
      with ex h Inr p 3(2) have d: "dispatch g e fuel q2 r2 = Some r'" by simp
      from False have f: "\<not> failure r2 \<noteq> None" .
      from 3(1)[OF ex h refl Inr p[symmetric] f d 3(3) wt2 qt2] show ?thesis .
    qed
  qed
qed

lemma new_run_typed: "well_typed new_run"
  by (simp add: well_typed_def new_run_def)

lemma submit_typed:
  assumes "submit workflow e fuel (MAlertInput a) = Some r"
  shows "well_typed r"
  using assms unfolding submit_def
  by (rule dispatch_typed)
     (simp_all add: new_run_typed queue_typed_def declared_input_def workflow_def)

lemma resume_typed:
  assumes res: "resume workflow e fuel r cid resp = Some (Inr r')" and wt: "well_typed r"
  shows "well_typed r'"
proof -
  from res obtain p where p: "map_of (pending r) cid = Some p"
    by (auto simp: resume_def split: option.splits)
  from res p have ty: "response_type_of resp = expected p"
    by (auto simp: resume_def split: if_splits)
  from p have "(cid, p) \<in> set (pending r)" by (rule map_of_SomeD)
  with wt have pt: "origin p = ''incident_triage''" "type_of (payload p) = TTriageResult"
    "expected p = TTriageApproval"
    by (auto simp: well_typed_def list_all_iff pending_typed_def)
  from pt(2) obtain t where t: "payload p = MTriageResult t" by (cases "payload p") simp_all
  from ty pt(3) obtain ap where ap: "resp = RTriageApproval ap" by (cases resp) simp_all
  obtain t' where h: "handle_approval t ap = Inr [send_message (MTriageResult t')]"
    using handle_approval_sends by blast
  let ?r2 = "r\<lparr>pending := AList.delete cid (pending r),
                 trace := trace r @ [Responded ''incident_triage'' cid]\<rparr>"
  have wt2: "well_typed ?r2"
    using wt by (auto simp: well_typed_def list_all_iff AList.delete_eq)
  show ?thesis
  proof (cases "failure r = None")
    case True
    then have "resume workflow e fuel r cid resp
          = map_option Inr (dispatch workflow e fuel [(''github_creator'', MTriageResult t')] ?r2)"
      by (simp add: resume_def p ty pt t ap h workflow_executors incident_triage_def
          route_workflow Let_def del: dispatch.simps)
    with res have "dispatch workflow e fuel [(''github_creator'', MTriageResult t')] ?r2 = Some r'"
      by auto
    then show ?thesis
      using dispatch_typed[OF _ refl wt2, of e fuel "[(''github_creator'', MTriageResult t')]" r']
      by (simp add: queue_typed_def declared_input_def)
  next
    case False
    then have "resume workflow e fuel r cid resp = Some (Inr ?r2)"
      by (auto simp: resume_def p ty pt t ap h workflow_executors incident_triage_def
          route_workflow Let_def simp del: dispatch.simps)
    with res wt2 show ?thesis by simp
  qed
qed

subsection \<open>What the stages hand on\<close>

lemma contains_trans:
  assumes "contains a b" and "contains b c"
  shows "contains a c"
proof -
  from assms obtain p1 q1 p2 q2 where "b = p1 @ a @ q1" "c = p2 @ b @ q2"
    by (auto simp: contains_iff)
  then have "c = (p2 @ p1) @ a @ (q1 @ q2)" by simp
  then show ?thesis unfolding contains_iff by blast
qed






lemma sample_facts:
  "ai_severity default_alert = critical"
  "ai_resource default_alert = ''vm-db-01''"
  "json_loads sample_env (ai_metrics default_alert)
     = Some (JDict [(''cpu_percent'', JFloat (947 / 10)), (''memory_percent'', JFloat (177 / 2))])"
  "map_of [(''cpu_percent'', JFloat (947 / 10)), (''memory_percent'', JFloat (177 / 2))]
     ''cpu_percent'' = Some (JFloat (947 / 10))"
  "is_number (get_default [(''cpu_percent'', JFloat (947 / 10)), (''memory_percent'', JFloat (177 / 2))]
     ''memory_percent'' (JInt 0))"
  "well_formed sample_env default_alert"
  by (simp_all add: default_alert_def sample_env_def get_default_def well_formed_def
      numeric_gauges_def)

subsection \<open>Outcomes of a run\<close>




lemma resume_any_approval:
  assumes pend: "pending r = [(cid, \<lparr>origin = ''incident_triage'', payload = MTriageResult t,
                                     expected = TTriageApproval\<rparr>)]"
    and ok: "failure r = None" and fuel: "3 \<le> fuel"
  shows "\<exists>t' i n. resume workflow e fuel r cid (RTriageApproval ap)
         = Some (Inr (r\<lparr>pending := [],
                        trace := trace r @ [Responded ''incident_triage'' cid,
                                            Handled ''github_creator'' (MTriageResult t'),
                                            Handled ''teams_notifier'' (MGitHubIssue i),
                                            Handled ''incident_reporter'' (MTeamsNotification n)],
                        outputs := outputs r @ [strip (report_template n)]\<rparr>))"
proof -
  obtain t' where h: "handle_approval t ap = Inr [send_message (MTriageResult t')]"
    using handle_approval_sends by blast
  from resume_completes[OF pend ok fuel h, of e] show ?thesis by blast
qed


lemma call_types_triage: "set (sent_types (triage_alert p)) \<subseteq> {TTriageResult}"
proof (cases "triage_alert p")
  case (Inl x)
  then show ?thesis by (simp add: sent_types_def)
next
  case (Inr calls)
  from triage_alert_calls[OF Inr] show ?thesis
    using Inr by (auto simp: sent_types_def)
qed

lemma sample_run_resumed:
  "\<exists>r r'. submit workflow sample_env 5 (MAlertInput default_alert) = Some r
         \<and> trace r \<noteq> []
         \<and> failure r' = None
         \<and> resume workflow sample_env 5 r 0
               (RTriageApproval \<lparr>approved = approve, approval_notes = []\<rparr>) = Some (Inr r')"
proof -
  have sev: "ai_severity default_alert = critical \<or> ai_severity default_alert = high"
    by (simp add: default_alert_def)
  from submit_suspends[OF sev sample_facts(6), of 5] obtain p t where
    s: "submit workflow sample_env 5 (MAlertInput default_alert)
         = Some \<lparr> pending = [(0, \<lparr>origin = ''incident_triage'', payload = MTriageResult t,
                                   expected = TTriageApproval\<rparr>)],
                  next_id = 1, outputs = [],
                  trace = [Handled ''alert_processor'' (MAlertInput default_alert),
                           Handled ''incident_triage'' (MProcessedAlert p)],
                  failure = None \<rparr>" (is "_ = Some ?r")
    by auto
  from resume_any_approval[of ?r 0 t 5 sample_env "\<lparr>approved = approve, approval_notes = []\<rparr>"]
  obtain r' where "resume workflow sample_env 5 ?r 0
               (RTriageApproval \<lparr>approved = approve, approval_notes = []\<rparr>) = Some (Inr r')"
    and "failure r' = None"
    by auto
  with s show ?thesis by (intro exI[of _ ?r] exI[of _ r']) simp
qed


section \<open>Alert processing\<close>



text \<open>
  C9. For every AlertInput, the ProcessedAlert that the alert-processing handler sends has
  \<open>is_valid\<close> false exactly when \<open>alert_id\<close> or \<open>title\<close> is empty, and no validation error
  is an "Invalid severity" one: the severity of an AlertInput is one of the four literals.
\<close>

theorem process_alert_is_valid:
  "\<exists>p. process_alert e now a = Inr [send_message (MProcessedAlert p)]
      \<and> (\<not> is_valid p) = (ai_alert_id a = [] \<or> ai_title a = [])
      \<and> filter (\<lambda>x. startswith x ''Invalid severity'') (validation_errors p) = []"
  by (simp add: process_alert_sends startswith_def)

section \<open>Issue creation\<close>


section \<open>Approval round trip\<close>





section \<open>Alerts that need no approval\<close>



section \<open>Resuming twice\<close>



section \<open>Validation problems travel with the alert\<close>



section \<open>Order of dispatch\<close>



section \<open>Types along the edges\<close>

text \<open>
  C7. In every run of the workflow started with an AlertInput, and after any resume of it,
  each handled message has the input type declared by the executor that handles it, and
  the run never fails for a message without handler or route. Stage by stage:
  \<open>process_alert\<close> sends a ProcessedAlert, \<open>triage_alert\<close> sends or requests approval for a
  TriageResult, \<open>handle_approval\<close> sends a TriageResult, \<open>create_issue\<close> sends a
  GitHubIssue, \<open>notify_teams\<close> sends a TeamsNotification, and \<open>generate_report\<close> yields
  a string; this holds for all input values.
\<close>

theorem pipeline_types:
  assumes "submit workflow e fuel (MAlertInput a) = Some r"
  shows "well_typed r
       \<and> (\<forall>fuel' cid resp r'. resume workflow e fuel' r cid resp = Some (Inr r')
             \<longrightarrow> well_typed r')
       \<and> sent_types (process_alert e now a) = [TProcessedAlert]
       \<and> set (sent_types (triage_alert p)) \<subseteq> {TTriageResult}
       \<and> sent_types (handle_approval t ap) = [TTriageResult]
       \<and> sent_types (create_issue e now t) = [TGitHubIssue]
       \<and> sent_types (notify_teams e now i) = [TTeamsNotification]
       \<and> (\<exists>v. generate_report n = Inr [yield_output v])"
proof -
  have wt: "well_typed r" using assms by (rule submit_typed)
  then have "\<forall>fuel' cid resp r'. resume workflow e fuel' r cid resp = Some (Inr r')
             \<longrightarrow> well_typed r'"
    using resume_typed by blast
  moreover have "sent_types (handle_approval t ap) = [TTriageResult]"
    by (simp add: handle_approval_sends sent_types_def)
  ultimately show ?thesis
    using wt call_types_triage[of p]
    by (simp add: process_alert_sends sent_types_def create_issue_def notify_teams_def
        generate_report_def Let_def)
qed

theorem pipeline_types_witness:
  "\<exists>r. submit workflow sample_env 5 (MAlertInput default_alert) = Some r
      \<and> well_typed r
      \<and> trace r \<noteq> []
      \<and> (\<exists>r'. resume workflow sample_env 5 r 0
                  (RTriageApproval \<lparr>approved = approve, approval_notes = []\<rparr>) = Some (Inr r')
             \<and> well_typed r')"
proof -
  from sample_run_resumed obtain r r' where
    s: "submit workflow sample_env 5 (MAlertInput default_alert) = Some r"
    and ne: "trace r \<noteq> []"
    and rs: "resume workflow sample_env 5 r 0
               (RTriageApproval \<lparr>approved = approve, approval_notes = []\<rparr>) = Some (Inr r')"
    by blast
  from pipeline_types[OF s] rs have "well_typed r" "well_typed r'" by blast+
  with s ne rs show ?thesis by blast
qed

end
